theory Spec2Isabelle
  imports Main "HOL-Library.Char_ord" "HOL-Library.List_Lexorder"
begin

section \<open>The task tracker (main.py)\<close>

subsection \<open>Parsed JSON documents\<close>

text \<open>
  The value \<^verbatim>\<open>json.load\<close> returns for a document. An object is a list of
  key/value pairs in document order; \<^verbatim>\<open>json.load\<close> keeps one entry per key.
  JSON numbers with a fraction or an exponent become Python floats and are not part of
  this model.
\<close>

datatype json =
    JNull
  | JBool bool
  | JInt int
  | JStr string
  | JArr "json list"
  | JObj "(string \<times> json) list"

text \<open>The exceptions that the modelled code can raise.\<close>

datatype exn =
    OSError
  | ValueError
  | TypeError
  | KeyError string
  | MarkupError

text \<open>
  A computation that returns a value or raises; \<open>exn_bind\<close> runs the second step
  only when the first one returned.
\<close>

definition exn_bind :: "exn + 'a \<Rightarrow> ('a \<Rightarrow> exn + 'b) \<Rightarrow> exn + 'b" where
  "exn_bind m f = (case m of Inl e \<Rightarrow> Inl e | Inr x \<Rightarrow> f x)"

text \<open>
  \<^verbatim>\<open>try: body  except Exception as e: handler(e)\<close>. Every constructor of
  \<open>exn\<close> is a subclass of \<^verbatim>\<open>Exception\<close>.
\<close>

definition try_except :: "exn + 'a \<Rightarrow> (exn \<Rightarrow> exn + 'a) \<Rightarrow> exn + 'a" where
  "try_except body handler = (case body of Inr x \<Rightarrow> Inr x | Inl e \<Rightarrow> handler e)"

subsection \<open>The \<^verbatim>\<open>Task\<close> dataclass\<close>

text \<open>
  \<^verbatim>\<open>
  @dataclass
  class Task:
      id: int
      title: str
      description: str
      status: str  # "todo", "in_progress", "done"
      priority: int  # 1..5
      created_at: str
      updated_at: str
  \<close>
  The annotations are not checked at run time. The repository's own operations build
  and compare tasks at the annotated types (\<open>Task\<close> below); \<^verbatim>\<open>from_dict\<close>
  fills the fields with whatever values the document holds (\<open>loaded_task\<close>). The
  two field types are therefore parameters of the record.
\<close>

record ('i, 's) task =
  task_id :: 'i
  title :: 's
  description :: 's
  status :: 's
  priority :: 'i
  created_at :: 's
  updated_at :: 's

type_synonym Task = "(int, string) task"
type_synonym loaded_task = "(json, json) task"

subsection \<open>The backing file\<close>

text \<open>
  What the file system holds at the path:
  \<^item> \<open>Absent\<close>: nothing, \<^verbatim>\<open>path.exists()\<close> is false;
  \<^item> \<open>No_access\<close>: the path cannot be examined, \<^verbatim>\<open>path.exists()\<close>
    raises \<^verbatim>\<open>PermissionError\<close>, an \<^verbatim>\<open>OSError\<close>;
  \<^item> \<open>Unreadable\<close>: a file that cannot be opened or read, \<^verbatim>\<open>open\<close>
    or \<^verbatim>\<open>read\<close> raises \<^verbatim>\<open>OSError\<close>;
  \<^item> \<open>Not_json\<close>: bytes that are not UTF-8 text, or text that is not a JSON
    document (an empty or cut-off text among them); \<^verbatim>\<open>json.load\<close> raises
    \<^verbatim>\<open>UnicodeDecodeError\<close> or \<^verbatim>\<open>JSONDecodeError\<close>, both of
    them a \<^verbatim>\<open>ValueError\<close>;
  \<^item> \<open>Content raw\<close>: a JSON document, which \<^verbatim>\<open>json.load\<close> reads as
    \<open>raw\<close>.
\<close>

datatype file_state =
    Absent
  | No_access
  | Unreadable
  | Not_json
  | Content json

subsection \<open>\<^verbatim>\<open>TaskRepository\<close>\<close>

text \<open>
  The state of a repository: the in-memory list \<^verbatim>\<open>self.tasks\<close>, the content
  of the file at \<^verbatim>\<open>self.path\<close>, and the number of times the file has been
  opened for writing.
\<close>

record ('i, 's) repository =
  tasks :: "('i, 's) task list"
  disk :: file_state
  writes :: nat

type_synonym Repository = "(int, string) repository"

text \<open>
  \<^verbatim>\<open>asdict(task)\<close> followed by the JSON encoding of the field values.
\<close>

definition asdict :: "Task \<Rightarrow> json" where
  "asdict t = JObj
     [(''id'', JInt (task_id t)),
      (''title'', JStr (title t)),
      (''description'', JStr (description t)),
      (''status'', JStr (status t)),
      (''priority'', JInt (priority t)),
      (''created_at'', JStr (created_at t)),
      (''updated_at'', JStr (updated_at t))]"

text \<open>
  \<^verbatim>\<open>
  def _save(self) -> None:
      data = [asdict(task) for task in self.tasks]
      with self.path.open("w", encoding="utf-8") as f:
          json.dump(data, f, ensure_ascii=False, indent=2)
  \<close>
\<close>

definition document :: "Task list \<Rightarrow> json" where
  "document ts = JArr (map asdict ts)"

text \<open>
  \<open>save s\<close> is the state after a \<^verbatim>\<open>_save\<close> that runs to its end: the file
  holds the text \<^verbatim>\<open>json.dump\<close> wrote, which \<^verbatim>\<open>json.load\<close>
  reads as the value that was dumped. The operations \<^verbatim>\<open>add\<close>,
  \<^verbatim>\<open>update_status\<close> and \<^verbatim>\<open>delete\<close> are modelled for such a
  write. \<open>try_save\<close> below is \<^verbatim>\<open>_save\<close> with the ways it fails.
\<close>

definition save :: "Repository \<Rightarrow> Repository" where
  "save s = s\<lparr>disk := Content (document (tasks s)), writes := Suc (writes s)\<rparr>"

text \<open>
  \<^verbatim>\<open>json.dump\<close> writes an integer through its decimal text. Python refuses
  to convert an integer of more than 4300 decimal digits (the default of
  \<^verbatim>\<open>sys.set_int_max_str_digits\<close>) and raises \<^verbatim>\<open>ValueError\<close>;
  the sign does not count. The integers of a task are its id and its priority.

  A string is a HOL string, a list of 8-bit characters, and every such string has a
  UTF-8 encoding. Python strings over the larger alphabet are outside this type; among
  them are the strings with a lone surrogate, which UTF-8 cannot encode and for which the
  write raises \<^verbatim>\<open>UnicodeEncodeError\<close>.
\<close>

definition int_max_str_digits :: nat where
  "int_max_str_digits = 4300"

definition int_to_str_ok :: "int \<Rightarrow> bool" where
  "int_to_str_ok n = (\<bar>n\<bar> < 10 ^ int_max_str_digits)"

definition encodable :: "Task \<Rightarrow> bool" where
  "encodable t = (int_to_str_ok (task_id t) \<and> int_to_str_ok (priority t))"

text \<open>
  \<^verbatim>\<open>_save\<close> with its failures; \<open>writable\<close> says whether
  \<^verbatim>\<open>self.path.open("w")\<close> succeeds. When it does not, \<^verbatim>\<open>open\<close>
  raises \<^verbatim>\<open>OSError\<close> and the file is as before. When it does, the file is
  emptied, and \<^verbatim>\<open>json.dump\<close> (with \<^verbatim>\<open>indent\<close>, so through the
  iterating encoder) writes the document piece by piece: at an integer it cannot convert
  it raises \<^verbatim>\<open>ValueError\<close>, and the file is left with the text written so
  far, an opening bracket that is never closed, which is not a JSON document. The result
  is the exception raised, if any, and the state afterwards.
\<close>

definition try_save :: "bool \<Rightarrow> Repository \<Rightarrow> exn option \<times> Repository" where
  "try_save writable s =
     (if \<not> writable then (Some OSError, s)
      else if list_all encodable (tasks s)
      then (None, s\<lparr>disk := Content (document (tasks s)), writes := Suc (writes s)\<rparr>)
      else (Some ValueError, s\<lparr>disk := Not_json, writes := Suc (writes s)\<rparr>))"

text \<open>
  \<^verbatim>\<open>max(iterable)\<close> keeps the first element and replaces it by every later
  element that is greater.
\<close>

fun py_max :: "int \<Rightarrow> int list \<Rightarrow> int" where
  "py_max m [] = m"
| "py_max m (x # xs) = py_max (if x > m then x else m) xs"

text \<open>
  \<^verbatim>\<open>
  def next_id(self) -> int:
      if not self.tasks:
          return 1
      return max(task.id for task in self.tasks) + 1
  \<close>
\<close>

definition next_id :: "Repository \<Rightarrow> int" where
  "next_id s =
     (case tasks s of
        [] \<Rightarrow> 1
      | t # ts \<Rightarrow> py_max (task_id t) (map task_id ts) + 1)"

text \<open>
  \<^verbatim>\<open>
  def add(self, title: str, description: str, priority: int) -> Task:
      now = datetime.now().isoformat(timespec="seconds")
      task = Task(id=self.next_id(), title=title, description=description,
                  status="todo", priority=priority, created_at=now, updated_at=now)
      self.tasks.append(task)
      self._save()
      return task
  \<close>
  The clock reading \<open>now\<close> is an input of the call.
\<close>

definition add_task :: "Repository \<Rightarrow> string \<Rightarrow> string \<Rightarrow> int \<Rightarrow> string \<Rightarrow> Task \<times> Repository" where
  "add_task s ttl descr prio now =
     (let task = \<lparr>task_id = next_id s, title = ttl, description = descr,
                  status = ''todo'', priority = prio,
                  created_at = now, updated_at = now\<rparr>
      in (task, save (s\<lparr>tasks := tasks s @ [task]\<rparr>)))"

text \<open>
  \<^verbatim>\<open>
  def find(self, task_id: int) -> Optional[Task]:
      for t in self.tasks:
          if t.id == task_id:
              return t
      return None
  \<close>
\<close>

fun find_first :: "Task list \<Rightarrow> int \<Rightarrow> Task option" where
  "find_first [] i = None"
| "find_first (t # ts) i = (if task_id t = i then Some t else find_first ts i)"

definition find_task :: "Repository \<Rightarrow> int \<Rightarrow> Task option" where
  "find_task s i = find_first (tasks s) i"



text \<open>
  \<^verbatim>\<open>
  def delete(self, task_id: int) -> bool:
      before = len(self.tasks)
      self.tasks = [t for t in self.tasks if t.id != task_id]
      if len(self.tasks) == before:
          return False
      self._save()
      return True
  \<close>
\<close>

definition delete_task :: "Repository \<Rightarrow> int \<Rightarrow> bool \<times> Repository" where
  "delete_task s i =
     (let before = length (tasks s);
          s' = s\<lparr>tasks := filter (\<lambda>t. task_id t \<noteq> i) (tasks s)\<rparr>
      in if length (tasks s') = before then (False, s') else (True, save s'))"

text \<open>
  \<^verbatim>\<open>
  def filter_by_status(self, status: str) -> List[Task]:
      return [t for t in self.tasks if t.status == status]
  \<close>
\<close>

definition filter_by_status :: "Repository \<Rightarrow> string \<Rightarrow> Task list" where
  "filter_by_status s st = filter (\<lambda>t. status t = st) (tasks s)"

subsection \<open>Loading\<close>

text \<open>
  \<^verbatim>\<open>data[key]\<close> with a string key: a lookup in a dict, \<^verbatim>\<open>KeyError\<close>
  when the key is missing, \<^verbatim>\<open>TypeError\<close> for every other JSON value (a list
  or a string does not accept a string index, the others are not subscriptable).
\<close>

definition subscript :: "json \<Rightarrow> string \<Rightarrow> exn + json" where
  "subscript data key =
     (case data of
        JObj kvs \<Rightarrow> (case map_of kvs key of None \<Rightarrow> Inl (KeyError key) | Some v \<Rightarrow> Inr v)
      | _ \<Rightarrow> Inl TypeError)"

text \<open>
  \<^verbatim>\<open>
  @staticmethod
  def from_dict(data: dict) -> "Task":
      return Task(id=data["id"], title=data["title"], description=data["description"],
                  status=data["status"], priority=data["priority"],
                  created_at=data["created_at"], updated_at=data["updated_at"])
  \<close>
  The arguments are evaluated in this order; the first failing lookup raises.
\<close>

definition from_dict :: "json \<Rightarrow> exn + loaded_task" where
  "from_dict data =
     exn_bind (subscript data ''id'') (\<lambda>v1.
     exn_bind (subscript data ''title'') (\<lambda>v2.
     exn_bind (subscript data ''description'') (\<lambda>v3.
     exn_bind (subscript data ''status'') (\<lambda>v4.
     exn_bind (subscript data ''priority'') (\<lambda>v5.
     exn_bind (subscript data ''created_at'') (\<lambda>v6.
     exn_bind (subscript data ''updated_at'') (\<lambda>v7.
       Inr \<lparr>task_id = v1, title = v2, description = v3, status = v4,
            priority = v5, created_at = v6, updated_at = v7\<rparr>)))))))"

text \<open>
  \<^verbatim>\<open>for item in raw\<close>: a list yields its elements, a dict its keys, a string
  its characters (one-character strings); the other JSON values are not iterable.
\<close>

definition iterate :: "json \<Rightarrow> exn + json list" where
  "iterate raw =
     (case raw of
        JArr xs \<Rightarrow> Inr xs
      | JObj kvs \<Rightarrow> Inr (map (\<lambda>kv. JStr (fst kv)) kvs)
      | JStr cs \<Rightarrow> Inr (map (\<lambda>c. JStr [c]) cs)
      | _ \<Rightarrow> Inl TypeError)"

text \<open>\<^verbatim>\<open>[Task.from_dict(item) for item in raw]\<close>, left to right.\<close>

fun from_dicts :: "json list \<Rightarrow> exn + loaded_task list" where
  "from_dicts [] = Inr []"
| "from_dicts (x # xs) =
     exn_bind (from_dict x) (\<lambda>t. exn_bind (from_dicts xs) (\<lambda>ts. Inr (t # ts)))"

text \<open>
  \<^verbatim>\<open>with self.path.open("r", encoding="utf-8") as f: raw = json.load(f)\<close>
\<close>

definition read_json :: "file_state \<Rightarrow> exn + json" where
  "read_json f =
     (case f of
        Absent \<Rightarrow> Inl OSError
      | No_access \<Rightarrow> Inl OSError
      | Unreadable \<Rightarrow> Inl OSError
      | Not_json \<Rightarrow> Inl ValueError
      | Content raw \<Rightarrow> Inr raw)"

text \<open>
  \<^verbatim>\<open>self.path.exists()\<close>, which \<^verbatim>\<open>_load\<close> calls before its
  \<^verbatim>\<open>try\<close>.
\<close>

definition path_exists :: "file_state \<Rightarrow> exn + bool" where
  "path_exists f =
     (case f of
        Absent \<Rightarrow> Inr False
      | No_access \<Rightarrow> Inl OSError
      | _ \<Rightarrow> Inr True)"

text \<open>
  The \<^verbatim>\<open>except\<close> clause of \<^verbatim>\<open>_load\<close> reports through the rich
  library: \<^verbatim>\<open>console.print(Panel.fit(...))\<close> renders a text made of the
  message of the exception and of \<^verbatim>\<open>self.path.resolve()\<close> as console markup,
  and raises \<^verbatim>\<open>MarkupError\<close> when that text holds a closing tag that closes
  nothing (a path with \<^verbatim>\<open>[/b]\<close> in it). The console is an input of the model:
  \<open>console e\<close> is the exception that reporting \<open>e\<close> raises, and \<open>None\<close> when
  the panel is printed.
\<close>

type_synonym console = "exn \<Rightarrow> exn option"

text \<open>
  \<^verbatim>\<open>
  def _load(self) -> None:
      if not self.path.exists():
          self.tasks = []
          return
      try:
          with self.path.open("r", encoding="utf-8") as f:
              raw = json.load(f)
          self.tasks = [Task.from_dict(item) for item in raw]
      except Exception as e:
          console.print(Panel.fit(f"... {e} ...", title=..., border_style="red"))
          self.tasks = []
  \<close>
  The result is the new value of \<^verbatim>\<open>self.tasks\<close> and the exception printed
  on the console, if any; \<open>Inl\<close> is an exception leaving \<^verbatim>\<open>_load\<close>: one
  raised by \<^verbatim>\<open>exists\<close>, which is outside the \<^verbatim>\<open>try\<close>, or by the
  report inside the \<^verbatim>\<open>except\<close> clause, before \<^verbatim>\<open>self.tasks = []\<close>.
\<close>

definition load :: "console \<Rightarrow> file_state \<Rightarrow> exn + (loaded_task list \<times> exn option)" where
  "load console f =
     exn_bind (path_exists f) (\<lambda>there.
       if \<not> there then Inr ([], None)
       else try_except
              (exn_bind (read_json f) (\<lambda>raw.
               exn_bind (iterate raw) (\<lambda>items.
               exn_bind (from_dicts items) (\<lambda>ts. Inr (ts, None)))))
              (\<lambda>e. case console e of
                      None \<Rightarrow> Inr ([], Some e)
                    | Some e' \<Rightarrow> Inl e'))"

text \<open>
  \<^verbatim>\<open>
  def __init__(self, path: Path) -> None:
      self.path = path
      self.tasks: List[Task] = []
      self._load()
  \<close>
\<close>

definition init :: "console \<Rightarrow> file_state \<Rightarrow> exn + ((json, json) repository \<times> exn option)" where
  "init console f =
     exn_bind (load console f) (\<lambda>(ts, report).
       Inr (\<lparr>tasks = ts, disk = f, writes = 0\<rparr>, report))"

text \<open>
  Reading a loaded task at the annotated types, and the converse embedding.
\<close>

definition as_int :: "json \<Rightarrow> int option" where
  "as_int v = (case v of JInt n \<Rightarrow> Some n | _ \<Rightarrow> None)"

definition as_str :: "json \<Rightarrow> string option" where
  "as_str v = (case v of JStr x \<Rightarrow> Some x | _ \<Rightarrow> None)"

definition typed :: "loaded_task \<Rightarrow> Task option" where
  "typed t =
     (case (as_int (task_id t), as_str (title t), as_str (description t), as_str (status t),
            as_int (priority t), as_str (created_at t), as_str (updated_at t)) of
        (Some i, Some tt, Some d, Some st, Some p, Some c, Some u) \<Rightarrow>
          Some \<lparr>task_id = i, title = tt, description = d, status = st,
                priority = p, created_at = c, updated_at = u\<rparr>
      | _ \<Rightarrow> None)"

definition untyped :: "Task \<Rightarrow> loaded_task" where
  "untyped t =
     \<lparr>task_id = JInt (task_id t), title = JStr (title t), description = JStr (description t),
      status = JStr (status t), priority = JInt (priority t),
      created_at = JStr (created_at t), updated_at = JStr (updated_at t)\<rparr>"

text \<open>
  The field names a task record has in the document, a JSON value that is an object
  with all of them, and the repository that construction falls back to.
\<close>

definition field_names :: "string list" where
  "field_names = [''id'', ''title'', ''description'', ''status'', ''priority'',
                  ''created_at'', ''updated_at'']"

definition has_fields :: "json \<Rightarrow> bool" where
  "has_fields x =
     (case x of
        JObj kvs \<Rightarrow> list_all (\<lambda>k. map_of kvs k \<noteq> None) field_names
      | _ \<Rightarrow> False)"

definition empty_on :: "file_state \<Rightarrow> (json, json) repository" where
  "empty_on f = \<lparr>tasks = [], disk = f, writes = 0\<rparr>"

subsection \<open>Sequences of \<^verbatim>\<open>add\<close> calls\<close>

text \<open>
  A caller adding several tasks one after the other; each call comes with its title,
  description, priority and clock reading. The result lists the returned tasks in call
  order.
\<close>

fun add_many :: "Repository \<Rightarrow> (string \<times> string \<times> int \<times> string) list \<Rightarrow> Task list \<times> Repository" where
  "add_many s [] = ([], s)"
| "add_many s ((ttl, descr, prio, now) # calls) =
     (let (t, s') = add_task s ttl descr prio now;
          (ts, s'') = add_many s' calls
      in (t # ts, s''))"

subsection \<open>\<^verbatim>\<open>all\<close> and object identity\<close>

text \<open>
  \<^verbatim>\<open>
  def all(self) -> List[Task]:
      return list(self.tasks)
  \<close>
  What a caller can do with the returned list depends on which objects it shares with
  the repository, so this part of the model keeps Python's objects apart from the
  references to them. A heap is a list of objects, a reference is an index into it,
  and a new object is placed at the end. A list object holds references to its
  elements; \<^verbatim>\<open>self.tasks\<close> is a reference to a list object.
\<close>

type_synonym ref = nat

datatype obj =
    Task_obj Task
  | List_obj "ref list"

record objects =
  heap :: "obj list"
  self_tasks :: ref

definition lookup :: "obj list \<Rightarrow> ref \<Rightarrow> obj option" where
  "lookup h r = (if r < length h then Some (h ! r) else None)"

definition list_at :: "obj list \<Rightarrow> ref \<Rightarrow> ref list option" where
  "list_at h r = (case lookup h r of Some (List_obj rs) \<Rightarrow> Some rs | _ \<Rightarrow> None)"

definition task_at :: "obj list \<Rightarrow> ref \<Rightarrow> Task option" where
  "task_at h r = (case lookup h r of Some (Task_obj t) \<Rightarrow> Some t | _ \<Rightarrow> None)"

text \<open>
  The tasks a list object holds, in order; \<open>None\<close> when the reference is not a list
  of tasks. \<open>collection\<close> is the repository's collection.
\<close>

fun those_tasks :: "obj list \<Rightarrow> ref list \<Rightarrow> Task list option" where
  "those_tasks h [] = Some []"
| "those_tasks h (r # rs) =
     (case task_at h r of
        None \<Rightarrow> None
      | Some t \<Rightarrow> (case those_tasks h rs of None \<Rightarrow> None | Some ts \<Rightarrow> Some (t # ts)))"

definition contents :: "obj list \<Rightarrow> ref \<Rightarrow> Task list option" where
  "contents h r = (case list_at h r of None \<Rightarrow> None | Some rs \<Rightarrow> those_tasks h rs)"

definition collection :: "objects \<Rightarrow> Task list option" where
  "collection w = contents (heap w) (self_tasks w)"

text \<open>
  \<^verbatim>\<open>list(self.tasks)\<close> builds a new list object with the element references of
  \<^verbatim>\<open>self.tasks\<close> and returns the reference to it.
\<close>

definition all_tasks :: "objects \<Rightarrow> (ref \<times> objects) option" where
  "all_tasks w =
     (case list_at (heap w) (self_tasks w) of
        None \<Rightarrow> None
      | Some rs \<Rightarrow> Some (length (heap w), w\<lparr>heap := heap w @ [List_obj rs]\<rparr>))"

text \<open>
  What a caller can do through a list \<open>r\<close> it holds: replace the elements of the list
  (\<^verbatim>\<open>r[:] = rs\<close>; \<^verbatim>\<open>append\<close>, \<^verbatim>\<open>pop\<close>, \<^verbatim>\<open>clear\<close>,
  \<^verbatim>\<open>sort\<close> and item assignment are instances), and assign to an attribute of
  an element (\<^verbatim>\<open>r[k].status = v\<close>; \<^verbatim>\<open>Task\<close> is not frozen).
\<close>

definition list_assign :: "objects \<Rightarrow> ref \<Rightarrow> ref list \<Rightarrow> objects option" where
  "list_assign w r rs =
     (case list_at (heap w) r of
        None \<Rightarrow> None
      | Some old \<Rightarrow> Some (w\<lparr>heap := (heap w)[r := List_obj rs]\<rparr>))"

definition set_status :: "objects \<Rightarrow> ref \<Rightarrow> nat \<Rightarrow> string \<Rightarrow> objects option" where
  "set_status w r k v =
     (case list_at (heap w) r of
        None \<Rightarrow> None
      | Some rs \<Rightarrow>
          if k < length rs
          then (case task_at (heap w) (rs ! k) of
                  None \<Rightarrow> None
                | Some t \<Rightarrow> Some (w\<lparr>heap := (heap w)[rs ! k := Task_obj (t\<lparr>status := v\<rparr>)]\<rparr>))
          else None)"

section \<open>The argument-parsing demo (argparse\_demo.py)\<close>

text \<open>
  The messages the handlers pass to \<^verbatim>\<open>SystemExit\<close>: the number of repeats is
  below 1; division by zero; unknown operation; file not found; not a file. Each is a
  non-empty text beginning with a Cyrillic letter.
\<close>

datatype message =
    Repeats_below_one
  | Division_by_zero
  | Unknown_operation string
  | File_not_found string
  | Not_a_file string

text \<open>The attribute \<^verbatim>\<open>code\<close> of a \<^verbatim>\<open>SystemExit\<close>.\<close>

datatype exit_code =
    No_code
  | Int_code int
  | Msg_code message

datatype raised =
    SystemExit exit_code
  | Exception exn

datatype 'a outcome =
    Returns 'a
  | Raises raised

text \<open>
  \<^verbatim>\<open>
  @dataclass
  class AppConfig:
      verbose: bool
      output: str | None
  \<close>
\<close>

record AppConfig =
  verbose :: bool
  output_path :: "string option"

text \<open>
  The namespace \<^verbatim>\<open>parse_args\<close> returns: the global options and, for a
  subcommand, the handler that \<^verbatim>\<open>set_defaults(func=...)\<close> attached to it.
  The handler is kept together with the subcommand's arguments in the namespace, so
  \<^verbatim>\<open>args.func(args, config)\<close> is \<open>func\<close> applied to the configuration.
  \<open>func = None\<close> is a namespace without the attribute \<^verbatim>\<open>func\<close>.
\<close>

record namespace =
  ns_verbose :: bool
  ns_output :: "string option"
  func :: "(AppConfig \<Rightarrow> unit outcome) option"

text \<open>
  \<^verbatim>\<open>parse_args\<close> belongs to the argparse library. Its input is modelled by
  what the library makes of \<open>argv\<close> under the parser of \<^verbatim>\<open>build_parser\<close>:
  global options only and no subcommand; a request for help; a command line that is
  refused (unknown option, invalid choice, missing or ill-typed argument); or a
  subcommand with its arguments and handler. A refused command line makes
  \<^verbatim>\<open>parser.error\<close> exit with status 2, help exits with status 0.
\<close>

datatype argv =
    No_subcommand bool "string option"
  | Help_requested
  | Refused
  | Subcommand bool "string option" "AppConfig \<Rightarrow> unit outcome"

text \<open>
  \<^verbatim>\<open>
  subparsers = parser.add_subparsers(title=..., dest="command", required=True,
                                     metavar="COMMAND", help=...)
  \<close>
\<close>

definition subparsers_required :: bool where
  "subparsers_required = True"

definition parse_args :: "argv \<Rightarrow> namespace outcome" where
  "parse_args a =
     (case a of
        Help_requested \<Rightarrow> Raises (SystemExit (Int_code 0))
      | Refused \<Rightarrow> Raises (SystemExit (Int_code 2))
      | No_subcommand v out \<Rightarrow>
          if subparsers_required then Raises (SystemExit (Int_code 2))
          else Returns \<lparr>ns_verbose = v, ns_output = out, func = None\<rparr>
      | Subcommand v out h \<Rightarrow>
          Returns \<lparr>ns_verbose = v, ns_output = out, func = Some h\<rparr>)"

text \<open>
  \<^verbatim>\<open>
  def get_config(args: argparse.Namespace) -> AppConfig:
      return AppConfig(verbose=bool(getattr(args, "verbose", False)), output=args.output)
  \<close>
\<close>

definition get_config :: "namespace \<Rightarrow> AppConfig" where
  "get_config args = \<lparr>verbose = ns_verbose args, output_path = ns_output args\<rparr>"

text \<open>
  \<^verbatim>\<open>
  def write_output(lines: List[str], config: AppConfig) -> None:
      frame = "=" * 50
      text = "\n".join([frame, *lines, frame])
      if config.output:
          path = Path(config.output)
          path.write_text(text, encoding="utf-8")
          print(f"[INFO] ...: {path}")
      else:
          print(text)
  \<close>
  Only the outcome is modelled, not the text: \<^verbatim>\<open>write_text\<close> raises
  \<^verbatim>\<open>OSError\<close> for the paths in \<open>unwritable\<close>. An empty string is falsy.
\<close>

definition write_output :: "string set \<Rightarrow> AppConfig \<Rightarrow> unit outcome" where
  "write_output unwritable config =
     (case output_path config of
        None \<Rightarrow> Returns ()
      | Some path \<Rightarrow>
          if path = [] then Returns ()
          else if path \<in> unwritable then Raises (Exception OSError)
          else Returns ())"

text \<open>
  \<^verbatim>\<open>
  def handle_greet(args: argparse.Namespace, config: AppConfig) -> None:
      name = args.name
      times = args.times
      if times < 1:
          raise SystemExit("... >= 1")
      ...
      write_output(lines, config)
  \<close>
\<close>

record greet_args =
  name :: string
  times_arg :: int
  shout :: bool

definition handle_greet :: "string set \<Rightarrow> greet_args \<Rightarrow> AppConfig \<Rightarrow> unit outcome" where
  "handle_greet unwritable args config =
     (if times_arg args < 1 then Raises (SystemExit (Msg_code Repeats_below_one))
      else write_output unwritable config)"

text \<open>
  \<^verbatim>\<open>int(e.code or 0)\<close>: \<^verbatim>\<open>None\<close> and \<^verbatim>\<open>0\<close> are falsy and give
  0, another integer gives itself, and a message is a non-empty string that
  \<^verbatim>\<open>int\<close> cannot parse, so \<^verbatim>\<open>int\<close> raises \<^verbatim>\<open>ValueError\<close>.
\<close>

definition int_code_or_0 :: "exit_code \<Rightarrow> exn + int" where
  "int_code_or_0 c =
     (case c of
        No_code \<Rightarrow> Inr 0
      | Int_code n \<Rightarrow> Inr (if n = 0 then 0 else n)
      | Msg_code m \<Rightarrow> Inl ValueError)"

text \<open>
  \<^verbatim>\<open>
  def main(argv: list[str] | None = None) -> int:
      parser = build_parser()
      if argv is None:
          argv = sys.argv[1:]
      args = parser.parse_args(argv)
      config = get_config(args)
      if not hasattr(args, "func"):
          parser.print_help()
          return 1
      try:
          args.func(args, config)
      except SystemExit as e:
          if e.code:
              print(f"[ERROR] {e}")
          return int(e.code or 0)
      except Exception as e:
          print(f"[UNEXPECTED ERROR] {e}")
          return 1
      return 0
  \<close>
  \<^verbatim>\<open>parse_args\<close> is called outside the \<^verbatim>\<open>try\<close>, so what it raises leaves
  \<^verbatim>\<open>main\<close>; so does an exception raised inside an \<^verbatim>\<open>except\<close> clause.
\<close>

definition main :: "argv \<Rightarrow> int outcome" where
  "main a =
     (case parse_args a of
        Raises r \<Rightarrow> Raises r
      | Returns args \<Rightarrow>
          (let config = get_config args in
           case func args of
             None \<Rightarrow> Returns 1
           | Some handler \<Rightarrow>
               (case handler config of
                  Returns u \<Rightarrow> Returns 0
                | Raises (SystemExit c) \<Rightarrow>
                    (case int_code_or_0 c of
                       Inr n \<Rightarrow> Returns n
                     | Inl e \<Rightarrow> Raises (Exception e))
                | Raises (Exception e) \<Rightarrow> Returns 1)))"

section \<open>Example inputs\<close>

text \<open>Stores and calls at which the theorems below are evaluated.\<close>

definition empty_repo :: Repository where
  "empty_repo = \<lparr>tasks = [], disk = Absent, writes = 0\<rparr>"

definition old_task :: Task where
  "old_task = \<lparr>task_id = 7, title = ''old'', description = '''', status = ''done'',
                priority = 2, created_at = ''2025-01-01T00:00:00'',
                updated_at = ''2025-01-01T00:00:00''\<rparr>"

definition s7 :: Repository where
  "s7 = \<lparr>tasks = [old_task], disk = Absent, writes = 0\<rparr>"

definition task_X :: Task where
  "task_X = \<lparr>task_id = 1, title = ''X'', description = '''', status = ''todo'',
              priority = 3, created_at = ''2026-11-04T10:00:00'',
              updated_at = ''2026-11-04T10:00:00''\<rparr>"

definition task_8 :: Task where
  "task_8 = \<lparr>task_id = 8, title = ''a'', description = '''', status = ''todo'',
              priority = 1, created_at = ''2026-11-04T10:00:00'',
              updated_at = ''2026-11-04T10:00:00''\<rparr>"

definition task_9 :: Task where
  "task_9 = \<lparr>task_id = 9, title = ''b'', description = ''x'', status = ''todo'',
              priority = 5, created_at = ''2026-11-04T10:00:01'',
              updated_at = ''2026-11-04T10:00:01''\<rparr>"

definition two_calls :: "(string \<times> string \<times> int \<times> string) list" where
  "two_calls = [(''a'', '''', 1, ''2026-11-04T10:00:00''), (''b'', ''x'', 5, ''2026-11-04T10:00:01'')]"

definition s9 :: Repository where
  "s9 = \<lparr>tasks = [old_task, task_8, task_9],
          disk = Content (document [old_task, task_8, task_9]), writes = 2\<rparr>"



definition dup_a :: Task where
  "dup_a = \<lparr>task_id = 1, title = ''first'', description = '''', status = ''todo'',
             priority = 1, created_at = ''2026-11-01T09:00:00'',
             updated_at = ''2026-11-01T09:00:00''\<rparr>"

definition other_task :: Task where
  "other_task = \<lparr>task_id = 2, title = ''second'', description = '''', status = ''todo'',
                  priority = 4, created_at = ''2026-11-01T09:05:00'',
                  updated_at = ''2026-11-01T09:05:00''\<rparr>"

definition dup_b :: Task where
  "dup_b = \<lparr>task_id = 1, title = ''third'', description = '''', status = ''in_progress'',
             priority = 5, created_at = ''2026-11-01T09:10:00'',
             updated_at = ''2026-11-01T09:10:00''\<rparr>"

definition s_dup :: Repository where
  "s_dup = \<lparr>tasks = [dup_a, other_task, dup_b],
             disk = Content (document [dup_a, other_task, dup_b]), writes = 0\<rparr>"

definition broken_document :: json where
  "broken_document = JArr [JObj [(''id'', JInt 1)]]"

definition w0 :: objects where
  "w0 = \<lparr>heap = [Task_obj task_X, List_obj [0]], self_tasks = 1\<rparr>"

definition w1 :: objects where
  "w1 = \<lparr>heap = [Task_obj task_X, List_obj [0], List_obj [0]], self_tasks = 1\<rparr>"

definition greet_alex :: greet_args where
  "greet_alex = \<lparr>name = ''Alex'', times_arg = 3, shout = True\<rparr>"

definition greet_zero :: greet_args where
  "greet_zero = \<lparr>name = ''Alex'', times_arg = 0, shout = False\<rparr>"

text \<open>A handler that raises \<^verbatim>\<open>SystemExit\<close> with the given code.\<close>

definition exit_with :: "exit_code \<Rightarrow> AppConfig \<Rightarrow> unit outcome" where
  "exit_with c config = Raises (SystemExit c)"

text \<open>A console that prints every report, and one on which every report fails.\<close>

definition prints :: console where
  "prints e = None"

definition markup_fails :: console where
  "markup_fails e = Some MarkupError"

text \<open>A task whose id has 4301 decimal digits, the id after \<open>10 ^ 4300 - 1\<close>.\<close>

definition huge_task :: Task where
  "huge_task = \<lparr>task_id = 10 ^ int_max_str_digits, title = ''big'', description = '''',
                 status = ''todo'', priority = 3, created_at = ''2026-11-04T10:00:00'',
                 updated_at = ''2026-11-04T10:00:00''\<rparr>"

definition s_huge :: Repository where
  "s_huge = \<lparr>tasks = [huge_task], disk = Absent, writes = 0\<rparr>"

text \<open>A document of one record that has the seven fields, with values of other types.\<close>

definition ill_typed_document :: json where
  "ill_typed_document =
     JArr [JObj [(''id'', JStr ''x''), (''title'', JInt 5), (''description'', JNull),
                 (''status'', JStr ''later''), (''priority'', JInt 9),
                 (''created_at'', JStr ''''), (''updated_at'', JBool True)]]"

definition ill_typed_task :: loaded_task where
  "ill_typed_task =
     \<lparr>task_id = JStr ''x'', title = JInt 5, description = JNull, status = JStr ''later'',
      priority = JInt 9, created_at = JStr '''', updated_at = JBool True\<rparr>"

section \<open>Properties\<close>

subsection \<open>Helper lemmas\<close>

lemma py_max_fold: "py_max m xs = fold max xs m"
  by (induction xs arbitrary: m) (simp_all add: max_def)

lemma py_max_Max: "py_max m xs = Max (set (m # xs))"
  by (simp only: py_max_fold Max.set_eq_fold)

lemma next_id_Max:
  "tasks s \<noteq> [] \<Longrightarrow> next_id s = Max (task_id ` set (tasks s)) + 1"
  by (cases "tasks s") (simp_all add: next_id_def py_max_Max del: Max_insert set_simps, simp)

lemma next_id_greater: "u \<in> set (tasks s) \<Longrightarrow> task_id u < next_id s"
proof -
  assume u: "u \<in> set (tasks s)"
  then have ne: "tasks s \<noteq> []" by auto
  have "task_id u \<le> Max (task_id ` set (tasks s))"
    using u by (intro Max_ge) auto
  with next_id_Max [OF ne] show ?thesis by simp
qed

lemma add_task_tasks:
  "add_task s ttl d p now = (t, s') \<Longrightarrow> tasks s' = tasks s @ [t] \<and> task_id t = next_id s"
  by (auto simp: add_task_def save_def Let_def)

lemma add_many_tasks:
  "add_many s cs = (new, s') \<Longrightarrow> tasks s' = tasks s @ new"
proof (induction cs arbitrary: s new s')
  case Nil
  then show ?case by simp
next
  case (Cons c cs)
  obtain ttl d p now where c: "c = (ttl, d, p, now)" by (cases c) auto
  obtain t s1 where a: "add_task s ttl d p now = (t, s1)" by (cases "add_task s ttl d p now")
  obtain ts s2 where m: "add_many s1 cs = (ts, s2)" by (cases "add_many s1 cs")
  from Cons.prems c a m have eq: "new = t # ts" "s' = s2" by simp_all
  from add_task_tasks [OF a] Cons.IH [OF m] eq show ?case by simp
qed

lemma add_many_take:
  "add_many s cs = (new, s') \<Longrightarrow> fst (add_many s (take k cs)) = take k new"
proof (induction cs arbitrary: s new s' k)
  case Nil
  then show ?case by simp
next
  case (Cons c cs)
  obtain ttl d p now where c: "c = (ttl, d, p, now)" by (cases c) auto
  obtain t s1 where a: "add_task s ttl d p now = (t, s1)" by (cases "add_task s ttl d p now")
  obtain ts s2 where m: "add_many s1 cs = (ts, s2)" by (cases "add_many s1 cs")
  from Cons.prems c a m have eq: "new = t # ts" "s' = s2" by simp_all
  show ?case
  proof (cases k)
    case 0
    then show ?thesis by simp
  next
    case (Suc j)
    from Cons.IH [OF m, of j] have "fst (add_many s1 (take j cs)) = take j ts" .
    with Suc c a eq show ?thesis by (simp add: split_beta)
  qed
qed

lemma add_many_increasing:
  "add_many s cs = (new, s') \<Longrightarrow>
     sorted_wrt (<) (map task_id new) \<and> (\<forall>t\<in>set new. \<forall>u\<in>set (tasks s). task_id u < task_id t)"
proof (induction cs arbitrary: s new s')
  case Nil
  then show ?case by simp
next
  case (Cons c cs)
  obtain ttl d p now where c: "c = (ttl, d, p, now)" by (cases c) auto
  obtain t s1 where a: "add_task s ttl d p now = (t, s1)" by (cases "add_task s ttl d p now")
  obtain ts s2 where m: "add_many s1 cs = (ts, s2)" by (cases "add_many s1 cs")
  from Cons.prems c a m have eq: "new = t # ts" "s' = s2" by simp_all
  from add_task_tasks [OF a] have s1: "tasks s1 = tasks s @ [t]" and t: "task_id t = next_id s"
    by simp_all
  from Cons.IH [OF m] have ih1: "sorted_wrt (<) (map task_id ts)"
    and ih2: "\<forall>x\<in>set ts. \<forall>u\<in>set (tasks s1). task_id u < task_id x" by simp_all
  from ih2 s1 have "\<forall>x\<in>set ts. task_id t < task_id x" by simp
  moreover from ih2 s1 have "\<forall>x\<in>set ts. \<forall>u\<in>set (tasks s). task_id u < task_id x" by simp
  moreover have "\<forall>u\<in>set (tasks s). task_id u < task_id t"
    using t next_id_greater by simp
  ultimately show ?case using ih1 eq by simp
qed

lemma find_first_None: "find_first ts i = None \<longleftrightarrow> i \<notin> task_id ` set ts"
  by (induction ts) auto



lemma from_dict_asdict: "from_dict (asdict t) = Inr (untyped t)"
  by (simp add: from_dict_def asdict_def subscript_def exn_bind_def untyped_def)

lemma from_dicts_asdict: "from_dicts (map asdict ts) = Inr (map untyped ts)"
  by (induction ts) (simp_all add: from_dict_asdict exn_bind_def)

lemma typed_untyped: "typed (untyped t) = Some t"
  by (cases t) (simp add: typed_def untyped_def as_int_def as_str_def)

lemma from_dict_has_fields: "has_fields x \<Longrightarrow> \<exists>t. from_dict x = Inr t"
  by (cases x)
     (auto simp: has_fields_def field_names_def from_dict_def subscript_def exn_bind_def)

lemma from_dict_no_fields: "\<not> has_fields x \<Longrightarrow> \<exists>e. from_dict x = Inl e"
  by (cases x)
     (auto simp: has_fields_def field_names_def from_dict_def subscript_def exn_bind_def
           split: option.splits)

lemma from_dicts_ok:
  "list_all has_fields xs \<Longrightarrow> \<exists>ts. from_dicts xs = Inr ts \<and> length ts = length xs"
proof (induction xs)
  case Nil
  then show ?case by simp
next
  case (Cons x xs)
  from Cons.prems have hx: "has_fields x" and hxs: "list_all has_fields xs" by simp_all
  from from_dict_has_fields [OF hx] obtain t where t: "from_dict x = Inr t" ..
  from Cons.IH [OF hxs] obtain ts where ts: "from_dicts xs = Inr ts" "length ts = length xs"
    by blast
  from t ts show ?case by (simp add: exn_bind_def)
qed

lemma from_dicts_fail:
  "\<not> list_all has_fields xs \<Longrightarrow> \<exists>e. from_dicts xs = Inl e"
proof (induction xs)
  case Nil
  then show ?case by simp
next
  case (Cons x xs)
  show ?case
  proof (cases "has_fields x")
    case False
    from from_dict_no_fields [OF this] show ?thesis by (auto simp: exn_bind_def)
  next
    case True
    with Cons.prems have "\<not> list_all has_fields xs" by simp
    from Cons.IH [OF this] obtain e where e: "from_dicts xs = Inl e" ..
    from from_dict_has_fields [OF True] obtain t where "from_dict x = Inr t" ..
    with e show ?thesis by (simp add: exn_bind_def)
  qed
qed

lemma those_tasks_cong:
  "(\<And>r. r \<in> set rs \<Longrightarrow> task_at h' r = task_at h r) \<Longrightarrow> those_tasks h' rs = those_tasks h rs"
proof (induction rs)
  case Nil
  show ?case by simp
next
  case (Cons a rs)
  have "task_at h' a = task_at h a" using Cons.prems by simp
  moreover have "those_tasks h' rs = those_tasks h rs"
    using Cons.prems by (intro Cons.IH) simp
  ultimately show ?case by (simp split: option.splits)
qed

lemma those_tasks_valid:
  "those_tasks h rs = Some ts \<Longrightarrow> r \<in> set rs \<Longrightarrow> r < length h"
proof (induction rs arbitrary: ts)
  case Nil
  then show ?case by simp
next
  case (Cons a rs)
  from Cons.prems(1) obtain t ts' where a: "task_at h a = Some t" and rest: "those_tasks h rs = Some ts'"
    by (auto split: option.splits)
  from a have "a < length h"
    by (auto simp: task_at_def lookup_def split: if_splits)
  with Cons.IH [OF rest] Cons.prems(2) show ?case by auto
qed

lemma lookup_append: "a < length h \<Longrightarrow> lookup (h @ [x]) a = lookup h a"
  by (simp add: lookup_def nth_append)

lemma lookup_update: "a \<noteq> r \<Longrightarrow> lookup (h[r := x]) a = lookup h a"
  by (simp add: lookup_def)

lemma int_to_str_ok_small: "\<bar>n\<bar> < 10000 \<Longrightarrow> int_to_str_ok n"
proof -
  assume a: "\<bar>n\<bar> < 10000"
  have "(10::int) ^ 4 \<le> 10 ^ int_max_str_digits"
    unfolding int_max_str_digits_def by (rule power_increasing) simp_all
  with a show ?thesis by (simp add: int_to_str_ok_def)
qed

lemma try_save_completes:
  "list_all encodable (tasks s) \<Longrightarrow> try_save True s = (None, save s)"
  by (simp add: try_save_def save_def)

lemma not_encodable_huge: "\<not> encodable huge_task"
  by (simp add: encodable_def int_to_str_ok_def huge_task_def)

lemma load_document:
  "load console (Content (document ts)) = Inr (map untyped ts, None)"
  by (simp add: load_def path_exists_def document_def read_json_def iterate_def exn_bind_def
      try_except_def from_dicts_asdict)

lemma typed_untyped_map: "map typed (map untyped ts) = map Some ts"
  by (induction ts) (simp_all add: typed_untyped)

lemma init_reads:
  "from_dicts xs = Inr ts \<Longrightarrow>
     init console (Content (JArr xs)) = Inr (\<lparr>tasks = ts, disk = Content (JArr xs), writes = 0\<rparr>, None)"
  by (simp add: init_def load_def path_exists_def exn_bind_def try_except_def read_json_def
      iterate_def)

lemma init_reports:
  "from_dicts xs = Inl e \<Longrightarrow> console e = None \<Longrightarrow>
     init console (Content (JArr xs)) = Inr (empty_on (Content (JArr xs)), Some e)"
  by (simp add: init_def load_def path_exists_def exn_bind_def try_except_def read_json_def
      iterate_def empty_on_def)

lemma init_not_iterable:
  "iterate raw = Inl e \<Longrightarrow> console e = None \<Longrightarrow>
     init console (Content raw) = Inr (empty_on (Content raw), Some e)"
  by (simp add: init_def load_def path_exists_def exn_bind_def try_except_def read_json_def
      empty_on_def)

lemma init_item_fails:
  "iterate raw = Inr items \<Longrightarrow> from_dicts items = Inl e \<Longrightarrow> console e = None \<Longrightarrow>
     init console (Content raw) = Inr (empty_on (Content raw), Some e)"
  by (simp add: init_def load_def path_exists_def exn_bind_def try_except_def read_json_def
      empty_on_def)

lemma from_dict_str: "from_dict (JStr k) = Inl TypeError"
  by (simp add: from_dict_def subscript_def exn_bind_def)

lemma init_result:
  "init console f = Inr (r, report) \<Longrightarrow>
     disk r = f \<and> writes r = 0 \<and> (report \<noteq> None \<longrightarrow> tasks r = [])"
  by (auto simp: init_def load_def path_exists_def exn_bind_def try_except_def
      split: sum.splits option.splits file_state.splits if_splits)

subsection \<open>Identifiers\<close>

text \<open>
  Claim C1. For every sequence of \<^verbatim>\<open>add\<close> calls from any store, the ids of the
  added tasks are pairwise distinct, none of them is the id of a task that was in the
  store before, and the id assigned by each call is strictly greater than every id in the
  collection as it was just before that call.
\<close>

theorem add_many_ids:
  assumes run: "add_many s calls = (new, s')"
  shows "distinct (map task_id new)
       \<and> set (map task_id new) \<inter> set (map task_id (tasks s)) = {}
       \<and> (\<forall>k<length new.
             \<forall>u\<in>set (tasks (snd (add_many s (take k calls)))). task_id u < task_id (new ! k))"
proof -
  from add_many_increasing [OF run]
  have inc: "sorted_wrt (<) (map task_id new)"
    and old: "\<forall>t\<in>set new. \<forall>u\<in>set (tasks s). task_id u < task_id t" by simp_all
  from inc have d: "distinct (map task_id new)"
    by (simp add: strict_sorted_iff)
  from old have fresh: "set (map task_id new) \<inter> set (map task_id (tasks s)) = {}"
    by fastforce
  have before: "\<forall>u\<in>set (tasks (snd (add_many s (take k calls)))). task_id u < task_id (new ! k)"
    if k: "k < length new" for k
  proof
    fix u
    assume u: "u \<in> set (tasks (snd (add_many s (take k calls))))"
    have "add_many s (take k calls) = (fst (add_many s (take k calls)), snd (add_many s (take k calls)))"
      by simp
    from add_many_tasks [OF this] add_many_take [OF run, of k]
    have "tasks (snd (add_many s (take k calls))) = tasks s @ take k new" by simp
    with u have "u \<in> set (tasks s) \<or> u \<in> set (take k new)" by simp
    then show "task_id u < task_id (new ! k)"
    proof
      assume "u \<in> set (tasks s)"
      with old k show ?thesis by simp
    next
      assume "u \<in> set (take k new)"
      then obtain j where j: "j < k" and uj: "u = new ! j"
        using k by (auto simp: in_set_conv_nth)
      from inc j k have "map task_id new ! j < map task_id new ! k"
        by (intro sorted_wrt_nth_less) simp_all
      with j k uj show ?thesis by simp
    qed
  qed
  from d fresh before show ?thesis by blast
qed

theorem add_many_ids_witness:
  "add_many s7 two_calls = ([task_8, task_9], s9)
   \<and> map task_id [task_8, task_9] = [8, 9]
   \<and> distinct (map task_id [task_8, task_9])
   \<and> set (map task_id [task_8, task_9]) \<inter> set (map task_id (tasks s7)) = {}
   \<and> tasks (snd (add_many s7 (take 0 two_calls))) = [old_task]
   \<and> task_id old_task < task_id ([task_8, task_9] ! 0)
   \<and> tasks (snd (add_many s7 (take 1 two_calls))) = [old_task, task_8]
   \<and> task_id old_task < task_id ([task_8, task_9] ! 1)
   \<and> task_id task_8 < task_id ([task_8, task_9] ! 1)"
proof -
  have run: "add_many s7 two_calls = ([task_8, task_9], s9)"
    by (simp add: s7_def two_calls_def s9_def task_8_def task_9_def old_task_def
        add_task_def save_def next_id_def Let_def)
  have ids: "map task_id [task_8, task_9] = [8, 9]"
    by (simp add: task_8_def task_9_def)
  note spec = add_many_ids [OF run]
  from spec have d: "distinct (map task_id [task_8, task_9])" by blast
  from spec have f: "set (map task_id [task_8, task_9]) \<inter> set (map task_id (tasks s7)) = {}"
    by blast
  from spec have before: "\<And>k u. k < length [task_8, task_9] \<Longrightarrow>
      u \<in> set (tasks (snd (add_many s7 (take k two_calls)))) \<Longrightarrow>
      task_id u < task_id ([task_8, task_9] ! k)" by blast
  have c0: "tasks (snd (add_many s7 (take 0 two_calls))) = [old_task]"
    by (simp add: s7_def)
  have c1: "tasks (snd (add_many s7 (take 1 two_calls))) = [old_task, task_8]"
    by (simp add: s7_def two_calls_def task_8_def old_task_def
        add_task_def save_def next_id_def Let_def)
  from before [of 0 old_task] c0 have b0: "task_id old_task < task_id ([task_8, task_9] ! 0)"
    by simp
  from before [of 1 old_task] c1 have b1: "task_id old_task < task_id ([task_8, task_9] ! 1)"
    by simp
  from before [of 1 task_8] c1 have b2: "task_id task_8 < task_id ([task_8, task_9] ! 1)"
    by simp
  from run ids d f c0 b0 c1 b1 b2 show ?thesis by blast
qed

text \<open>
  Claim C2. The id given to the next added task is the maximum of the existing ids plus
  one when the collection is not empty, and 1 when it is empty.
\<close>

theorem next_id_spec:
  "(tasks s \<noteq> [] \<longrightarrow>
      task_id (fst (add_task s ttl descr prio now)) = Max (task_id ` set (tasks s)) + 1)
   \<and> (tasks s = [] \<longrightarrow> task_id (fst (add_task s ttl descr prio now)) = 1)
   \<and> task_id (fst (add_task s ttl descr prio now)) = next_id s"
proof (intro conjI impI)
  assume "tasks s \<noteq> []"
  then show "task_id (fst (add_task s ttl descr prio now)) = Max (task_id ` set (tasks s)) + 1"
    by (simp add: add_task_def Let_def next_id_Max)
next
  assume "tasks s = []"
  then show "task_id (fst (add_task s ttl descr prio now)) = 1"
    by (simp add: add_task_def Let_def next_id_def)
next
  show "task_id (fst (add_task s ttl descr prio now)) = next_id s"
    by (simp add: add_task_def Let_def)
qed

theorem next_id_spec_witness:
  "tasks s7 \<noteq> []
   \<and> task_id (fst (add_task s7 ''a'' '''' 1 ''2026-11-04T10:00:00''))
       = Max (task_id ` set (tasks s7)) + 1
   \<and> Max (task_id ` set (tasks s7)) + 1 = 8
   \<and> tasks empty_repo = []
   \<and> task_id (fst (add_task empty_repo ''a'' '''' 1 ''2026-11-04T10:00:00'')) = 1"
proof -
  have ne: "tasks s7 \<noteq> []" by (simp add: s7_def)
  have e: "tasks empty_repo = []" by (simp add: empty_repo_def)
  have m: "Max (task_id ` set (tasks s7)) + 1 = 8" by (simp add: s7_def old_task_def)
  from next_id_spec [of s7 "''a''" "''''" 1 "''2026-11-04T10:00:00''"] ne
  have a: "task_id (fst (add_task s7 ''a'' '''' 1 ''2026-11-04T10:00:00''))
       = Max (task_id ` set (tasks s7)) + 1" by blast
  from next_id_spec [of empty_repo "''a''" "''''" 1 "''2026-11-04T10:00:00''"] e
  have b: "task_id (fst (add_task empty_repo ''a'' '''' 1 ''2026-11-04T10:00:00'')) = 1" by blast
  from ne e m a b show ?thesis by blast
qed

subsection \<open>Adding\<close>

text \<open>
  Claim C3. For every store and every call \<^verbatim>\<open>add(title, description, priority)\<close>
  with a priority from 1 to 5, the returned task has the given title, description and
  priority, has status "todo", has equal \<^verbatim>\<open>created_at\<close> and
  \<^verbatim>\<open>updated_at\<close>, and is the last element of the collection afterwards, which is
  written to the file; on an empty store the task has id 1 (so
  \<^verbatim>\<open>add("X", "", 3)\<close> there gives id 1, status "todo" and equal timestamps).
\<close>

theorem add_task_spec:
  assumes "1 \<le> prio" and "prio \<le> 5"
    and "add_task s ttl descr prio now = (t, s')"
  shows "title t = ttl \<and> description t = descr \<and> priority t = prio
       \<and> status t = ''todo'' \<and> created_at t = updated_at t
       \<and> tasks s' = tasks s @ [t]
       \<and> disk s' = Content (document (tasks s')) \<and> writes s' = Suc (writes s)
       \<and> (tasks s = [] \<longrightarrow> task_id t = 1)"
  using assms(3) by (auto simp: add_task_def save_def Let_def next_id_def)

theorem add_task_spec_witness:
  "(1::int) \<le> 3 \<and> (3::int) \<le> 5
   \<and> add_task empty_repo ''X'' '''' 3 ''2026-11-04T10:00:00''
       = (task_X, \<lparr>tasks = [task_X], disk = Content (document [task_X]), writes = 1\<rparr>)
   \<and> tasks empty_repo = []
   \<and> title task_X = ''X'' \<and> description task_X = '''' \<and> priority task_X = 3
   \<and> task_id task_X = 1 \<and> status task_X = ''todo'' \<and> created_at task_X = updated_at task_X"
proof -
  have run: "add_task empty_repo ''X'' '''' 3 ''2026-11-04T10:00:00''
       = (task_X, \<lparr>tasks = [task_X], disk = Content (document [task_X]), writes = 1\<rparr>)"
    by (simp add: add_task_def empty_repo_def task_X_def save_def next_id_def Let_def)
  have e: "tasks empty_repo = []" by (simp add: empty_repo_def)
  have p: "(1::int) \<le> 3" "(3::int) \<le> 5" by simp_all
  from add_task_spec [OF p run] run e p show ?thesis by blast
qed

subsection \<open>Persistence\<close>

text \<open>
  Claim C4, as amended. For every collection of tasks whose integers have at most 4300
  decimal digits (its strings being encodable as UTF-8), written to a backing file that
  can be opened for writing, loading the document back gives the same collection: the
  same tasks with the same id, title, description, status, priority,
  \<^verbatim>\<open>created_at\<close> and \<^verbatim>\<open>updated_at\<close>, in the same order, and nothing
  is reported. For a collection with a longer integer the write raises
  \<^verbatim>\<open>ValueError\<close> and leaves a file that is not a JSON document; when the file
  cannot be opened for writing the write raises \<^verbatim>\<open>OSError\<close> and the file is
  as before.
\<close>

theorem try_save_load_roundtrip:
  "(list_all encodable (tasks s) \<longrightarrow>
      (\<exists>s'. try_save True s = (None, s') \<and> tasks s' = tasks s
          \<and> load console (disk s') = Inr (map untyped (tasks s), None))
      \<and> map typed (map untyped (tasks s)) = map Some (tasks s))
   \<and> (\<not> list_all encodable (tasks s) \<longrightarrow>
        try_save True s = (Some ValueError, s\<lparr>disk := Not_json, writes := Suc (writes s)\<rparr>))
   \<and> try_save False s = (Some OSError, s)"
proof (intro conjI impI)
  assume enc: "list_all encodable (tasks s)"
  let ?s' = "s\<lparr>disk := Content (document (tasks s)), writes := Suc (writes s)\<rparr>"
  from enc have "try_save True s = (None, ?s')" by (simp add: try_save_def)
  moreover have "tasks ?s' = tasks s" by simp
  moreover have "load console (disk ?s') = Inr (map untyped (tasks s), None)"
    by (simp add: load_document)
  ultimately show "\<exists>s'. try_save True s = (None, s') \<and> tasks s' = tasks s
          \<and> load console (disk s') = Inr (map untyped (tasks s), None)"
    by blast
next
  show "map typed (map untyped (tasks s)) = map Some (tasks s)"
    by (rule typed_untyped_map)
next
  assume "\<not> list_all encodable (tasks s)"
  then show "try_save True s = (Some ValueError, s\<lparr>disk := Not_json, writes := Suc (writes s)\<rparr>)"
    by (simp add: try_save_def)
next
  show "try_save False s = (Some OSError, s)" by (simp add: try_save_def)
qed

theorem try_save_load_roundtrip_witness:
  "list_all encodable (tasks s_dup)
   \<and> try_save True s_dup
       = (None, \<lparr>tasks = [dup_a, other_task, dup_b],
                 disk = Content (document [dup_a, other_task, dup_b]), writes = 1\<rparr>)
   \<and> load prints (Content (document [dup_a, other_task, dup_b]))
       = Inr (map untyped [dup_a, other_task, dup_b], None)
   \<and> map typed (map untyped [dup_a, other_task, dup_b]) = map Some [dup_a, other_task, dup_b]
   \<and> \<not> list_all encodable (tasks s_huge)
   \<and> try_save True s_huge = (Some ValueError, \<lparr>tasks = [huge_task], disk = Not_json, writes = 1\<rparr>)
   \<and> try_save False s_dup = (Some OSError, s_dup)"
proof -
  have ts: "tasks s_dup = [dup_a, other_task, dup_b]" by (simp add: s_dup_def)
  have e1: "encodable dup_a" by (simp add: encodable_def int_to_str_ok_small dup_a_def)
  have e2: "encodable other_task" by (simp add: encodable_def int_to_str_ok_small other_task_def)
  have e3: "encodable dup_b" by (simp add: encodable_def int_to_str_ok_small dup_b_def)
  from e1 e2 e3 ts have enc: "list_all encodable (tasks s_dup)" by simp
  have nenc: "\<not> list_all encodable (tasks s_huge)"
    by (simp add: s_huge_def not_encodable_huge)
  note ok = try_save_load_roundtrip [of s_dup prints]
  note bad = try_save_load_roundtrip [of s_huge prints]
  from ok enc obtain s' where
    r: "try_save True s_dup = (None, s')" and t: "tasks s' = tasks s_dup"
    and l: "load prints (disk s') = Inr (map untyped (tasks s_dup), None)"
    and ty: "map typed (map untyped (tasks s_dup)) = map Some (tasks s_dup)"
    by blast
  have "try_save True s_dup = (None, s_dup\<lparr>disk := Content (document (tasks s_dup)),
            writes := Suc (writes s_dup)\<rparr>)"
    using enc by (simp add: try_save_def)
  with r have "s' = s_dup\<lparr>disk := Content (document (tasks s_dup)), writes := Suc (writes s_dup)\<rparr>"
    by simp
  then have s': "s' = \<lparr>tasks = [dup_a, other_task, dup_b],
                 disk = Content (document [dup_a, other_task, dup_b]), writes = 1\<rparr>"
    by (simp add: s_dup_def)
  from r s' have 1: "try_save True s_dup
       = (None, \<lparr>tasks = [dup_a, other_task, dup_b],
                 disk = Content (document [dup_a, other_task, dup_b]), writes = 1\<rparr>)" by simp
  from l s' ts have 2: "load prints (Content (document [dup_a, other_task, dup_b]))
       = Inr (map untyped [dup_a, other_task, dup_b], None)" by simp
  from ty ts have 3: "map typed (map untyped [dup_a, other_task, dup_b])
       = map Some [dup_a, other_task, dup_b]" by simp
  from bad nenc have "try_save True s_huge
       = (Some ValueError, s_huge\<lparr>disk := Not_json, writes := Suc (writes s_huge)\<rparr>)" by blast
  then have 4: "try_save True s_huge
       = (Some ValueError, \<lparr>tasks = [huge_task], disk = Not_json, writes = 1\<rparr>)"
    by (simp add: s_huge_def)
  from ok have 5: "try_save False s_dup = (Some OSError, s_dup)" by blast
  from enc 1 2 3 nenc 4 5 show ?thesis by blast
qed

text \<open>
  Claim C4 as stated speaks of every collection. A task whose id has 4301 digits is a
  collection the store can hold (the id that \<^verbatim>\<open>add\<close> assigns after an id of
  4300 nines), and the write of it raises \<^verbatim>\<open>ValueError\<close> after the file has
  been emptied: loading what is left reports the failure and gives the empty collection,
  not the collection that was written.
\<close>

theorem save_huge_id_counterexample:
  "tasks s_huge = [huge_task]
   \<and> task_id huge_task = 10 ^ int_max_str_digits
   \<and> \<not> int_to_str_ok (task_id huge_task)
   \<and> try_save True s_huge
       = (Some ValueError, \<lparr>tasks = [huge_task], disk = Not_json, writes = 1\<rparr>)
   \<and> load prints Not_json = Inr ([], Some ValueError)
   \<and> map untyped [huge_task] \<noteq> []"
proof -
  have 1: "tasks s_huge = [huge_task]" by (simp add: s_huge_def)
  have 2: "task_id huge_task = 10 ^ int_max_str_digits" by (simp add: huge_task_def)
  have 3: "\<not> int_to_str_ok (task_id huge_task)" by (simp add: 2 int_to_str_ok_def)
  have 4: "try_save True s_huge
       = (Some ValueError, \<lparr>tasks = [huge_task], disk = Not_json, writes = 1\<rparr>)"
    by (simp add: s_huge_def try_save_def not_encodable_huge)
  have 5: "load prints Not_json = Inr ([], Some ValueError)"
    by (simp add: load_def path_exists_def read_json_def exn_bind_def try_except_def prints_def)
  have 6: "map untyped [huge_task] \<noteq> []" by simp
  from 1 2 3 4 5 6 show ?thesis by blast
qed

subsection \<open>Status updates\<close>




subsection \<open>Deleting\<close>



text \<open>
  Claim C9. After \<^verbatim>\<open>delete(id)\<close> the collection holds no task with that id:
  every task with the id is removed, not only the first, so a following
  \<^verbatim>\<open>find(id)\<close> returns nothing, also when several tasks of the collection had
  that id.
\<close>

theorem delete_task_removes_all:
  "find_task (snd (delete_task s i)) i = None
   \<and> i \<notin> task_id ` set (tasks (snd (delete_task s i)))
   \<and> tasks (snd (delete_task s i)) = filter (\<lambda>t. task_id t \<noteq> i) (tasks s)"
  by (auto simp: delete_task_def Let_def find_task_def find_first_None save_def)

theorem delete_task_removes_all_witness:
  "find_task s_dup 1 = Some dup_a
   \<and> length (filter (\<lambda>t. task_id t = 1) (tasks s_dup)) = 2
   \<and> find_task (snd (delete_task s_dup 1)) 1 = None
   \<and> tasks (snd (delete_task s_dup 1)) = [other_task]"
proof -
  have a: "find_task s_dup 1 = Some dup_a"
    by (simp add: find_task_def s_dup_def dup_a_def)
  have b: "length (filter (\<lambda>t. task_id t = 1) (tasks s_dup)) = 2"
    by (simp add: s_dup_def dup_a_def dup_b_def other_task_def)
  from delete_task_removes_all [of s_dup 1]
  have c: "find_task (snd (delete_task s_dup 1)) 1 = None"
    and d: "tasks (snd (delete_task s_dup 1)) = filter (\<lambda>t. task_id t \<noteq> 1) (tasks s_dup)"
    by blast+
  from d have "tasks (snd (delete_task s_dup 1)) = [other_task]"
    by (simp add: s_dup_def dup_a_def dup_b_def other_task_def)
  with a b c show ?thesis by blast
qed

subsection \<open>Construction\<close>

text \<open>
  Claim C7, as amended. When the backing document is absent the store starts with an
  empty collection and nothing is reported. When the document exists and reading it
  raises (it cannot be opened, is not UTF-8 JSON text, is not iterable, is a non-empty
  object or string, or an element of the array is not an object with the seven fields),
  the exception is handed to the console report and, once the report is printed, the
  store starts with an empty collection. A document that is read without an exception
  is taken as it is, with no check of types or values, and nothing is reported: an array
  of records that have the seven fields gives one task per record, and an empty object
  or an empty string gives the empty collection. Whenever construction returns with a
  report, the collection is empty.
\<close>

theorem init_spec:
  "(f = Absent \<longrightarrow> init console f = Inr (empty_on f, None))
   \<and> (f = Unreadable \<and> console OSError = None \<longrightarrow>
        init console f = Inr (empty_on f, Some OSError))
   \<and> (f = Not_json \<and> console ValueError = None \<longrightarrow>
        init console f = Inr (empty_on f, Some ValueError))
   \<and> ((f = Content JNull \<or> (\<exists>b. f = Content (JBool b)) \<or> (\<exists>n. f = Content (JInt n))
        \<or> (\<exists>kv kvs. f = Content (JObj (kv # kvs))) \<or> (\<exists>c cs. f = Content (JStr (c # cs))))
       \<and> console TypeError = None \<longrightarrow>
        init console f = Inr (empty_on f, Some TypeError))
   \<and> (\<forall>xs. f = Content (JArr xs) \<and> \<not> list_all has_fields xs \<longrightarrow>
        (\<exists>e. from_dicts xs = Inl e
           \<and> (console e = None \<longrightarrow> init console f = Inr (empty_on f, Some e))))
   \<and> (\<forall>xs. f = Content (JArr xs) \<and> list_all has_fields xs \<longrightarrow>
        (\<exists>ts. from_dicts xs = Inr ts \<and> length ts = length xs
           \<and> init console f = Inr (\<lparr>tasks = ts, disk = f, writes = 0\<rparr>, None)))
   \<and> (f = Content (JObj []) \<or> f = Content (JStr []) \<longrightarrow>
        init console f = Inr (empty_on f, None))
   \<and> (\<forall>r report. init console f = Inr (r, report) \<longrightarrow>
        disk r = f \<and> writes r = 0 \<and> (report \<noteq> None \<longrightarrow> tasks r = []))"
proof (intro conjI impI allI)
  assume "f = Absent"
  then show "init console f = Inr (empty_on f, None)"
    by (simp add: init_def load_def path_exists_def exn_bind_def empty_on_def)
next
  assume "f = Unreadable \<and> console OSError = None"
  then show "init console f = Inr (empty_on f, Some OSError)"
    by (simp add: init_def load_def path_exists_def exn_bind_def try_except_def read_json_def
        empty_on_def)
next
  assume "f = Not_json \<and> console ValueError = None"
  then show "init console f = Inr (empty_on f, Some ValueError)"
    by (simp add: init_def load_def path_exists_def exn_bind_def try_except_def read_json_def
        empty_on_def)
next
  assume a: "(f = Content JNull \<or> (\<exists>b. f = Content (JBool b)) \<or> (\<exists>n. f = Content (JInt n))
        \<or> (\<exists>kv kvs. f = Content (JObj (kv # kvs))) \<or> (\<exists>c cs. f = Content (JStr (c # cs))))
       \<and> console TypeError = None"
  then have c: "console TypeError = None" by simp
  from a consider
      (scalar) raw where "f = Content raw" "iterate raw = Inl TypeError"
    | (keys) raw k items where "f = Content raw" "iterate raw = Inr (JStr k # items)"
    by (auto simp: iterate_def)
  then show "init console f = Inr (empty_on f, Some TypeError)"
  proof cases
    case scalar
    from init_not_iterable [where console = console, OF scalar(2) c] scalar(1) show ?thesis by simp
  next
    case keys
    have "from_dicts (JStr k # items) = Inl TypeError"
      by (simp add: from_dict_str exn_bind_def)
    from init_item_fails [where console = console, OF keys(2) this c] keys(1) show ?thesis by simp
  qed
next
  fix xs
  assume a: "f = Content (JArr xs) \<and> \<not> list_all has_fields xs"
  then obtain e where e: "from_dicts xs = Inl e" using from_dicts_fail by blast
  from a init_reports [where console = console, OF e]
  have r: "console e = None \<longrightarrow> init console f = Inr (empty_on f, Some e)"
    by simp
  show "\<exists>e. from_dicts xs = Inl e
           \<and> (console e = None \<longrightarrow> init console f = Inr (empty_on f, Some e))"
  proof (intro exI conjI)
    show "from_dicts xs = Inl e" by (rule e)
    show "console e = None \<longrightarrow> init console f = Inr (empty_on f, Some e)" by (rule r)
  qed
next
  fix xs
  assume a: "f = Content (JArr xs) \<and> list_all has_fields xs"
  then obtain ts where ts: "from_dicts xs = Inr ts" "length ts = length xs"
    using from_dicts_ok by blast
  from a init_reads [where console = console, OF ts(1)]
  have r: "init console f = Inr (\<lparr>tasks = ts, disk = f, writes = 0\<rparr>, None)"
    by simp
  show "\<exists>ts. from_dicts xs = Inr ts \<and> length ts = length xs
           \<and> init console f = Inr (\<lparr>tasks = ts, disk = f, writes = 0\<rparr>, None)"
  proof (intro exI conjI)
    show "from_dicts xs = Inr ts" by (rule ts(1))
    show "length ts = length xs" by (rule ts(2))
    show "init console f = Inr (\<lparr>tasks = ts, disk = f, writes = 0\<rparr>, None)" by (rule r)
  qed
next
  assume "f = Content (JObj []) \<or> f = Content (JStr [])"
  then show "init console f = Inr (empty_on f, None)"
    by (auto simp: init_def load_def path_exists_def exn_bind_def try_except_def read_json_def
        iterate_def empty_on_def)
next
  fix r report
  assume "init console f = Inr (r, report)"
  from init_result [OF this] show "disk r = f" by simp
next
  fix r report
  assume "init console f = Inr (r, report)"
  from init_result [OF this] show "writes r = 0" by simp
next
  fix r report
  assume "init console f = Inr (r, report)" and "report \<noteq> None"
  with init_result [of console f r report] show "tasks r = []" by simp
qed

theorem init_spec_witness:
  "init prints Absent = Inr (empty_on Absent, None)
   \<and> init prints Unreadable = Inr (empty_on Unreadable, Some OSError)
   \<and> init prints Not_json = Inr (empty_on Not_json, Some ValueError)
   \<and> init prints (Content (JInt 5)) = Inr (empty_on (Content (JInt 5)), Some TypeError)
   \<and> \<not> list_all has_fields [JObj [(''id'', JInt 1)]]
   \<and> from_dicts [JObj [(''id'', JInt 1)]] = Inl (KeyError ''title'')
   \<and> init prints (Content broken_document)
       = Inr (empty_on (Content broken_document), Some (KeyError ''title''))
   \<and> list_all has_fields [asdict task_X]
   \<and> init prints (Content (JArr [asdict task_X]))
       = Inr (\<lparr>tasks = [untyped task_X], disk = Content (JArr [asdict task_X]), writes = 0\<rparr>, None)
   \<and> init prints (Content (JObj [])) = Inr (empty_on (Content (JObj [])), None)"
proof -
  have p: "prints e = None" for e by (simp add: prints_def)
  from init_spec [of Absent prints, THEN conjunct1]
  have 1: "init prints Absent = Inr (empty_on Absent, None)" by simp
  from init_spec [of Unreadable prints, THEN conjunct2, THEN conjunct1]
  have 2: "init prints Unreadable = Inr (empty_on Unreadable, Some OSError)"
    by (simp add: p)
  from init_spec [of Not_json prints, THEN conjunct2, THEN conjunct2, THEN conjunct1]
  have 3: "init prints Not_json = Inr (empty_on Not_json, Some ValueError)"
    by (simp add: p)
  from init_spec [of "Content (JInt 5)" prints,
      THEN conjunct2, THEN conjunct2, THEN conjunct2, THEN conjunct1]
  have 4: "init prints (Content (JInt 5)) = Inr (empty_on (Content (JInt 5)), Some TypeError)"
    by (simp add: p)
  have 5: "\<not> list_all has_fields [JObj [(''id'', JInt 1)]]"
    by (simp add: has_fields_def field_names_def)
  have 6: "from_dicts [JObj [(''id'', JInt 1)]] = Inl (KeyError ''title'')"
    by (simp add: from_dict_def subscript_def exn_bind_def)
  from init_spec [of "Content broken_document" prints,
      THEN conjunct2, THEN conjunct2, THEN conjunct2, THEN conjunct2, THEN conjunct1,
      THEN spec, of "[JObj [(''id'', JInt 1)]]"]
  have "\<exists>e. from_dicts [JObj [(''id'', JInt 1)]] = Inl e
     \<and> (prints e = None \<longrightarrow>
        init prints (Content broken_document) = Inr (empty_on (Content broken_document), Some e))"
    using 5 by (simp add: broken_document_def)
  with 6 have 7: "init prints (Content broken_document)
       = Inr (empty_on (Content broken_document), Some (KeyError ''title''))"
    by (simp add: p)
  have 8: "list_all has_fields [asdict task_X]"
    by (simp add: has_fields_def field_names_def asdict_def)
  have f: "from_dicts [asdict task_X] = Inr [untyped task_X]"
    using from_dicts_asdict [of "[task_X]"] by simp
  from init_spec [of "Content (JArr [asdict task_X])" prints,
      THEN conjunct2, THEN conjunct2, THEN conjunct2, THEN conjunct2, THEN conjunct2,
      THEN conjunct1, THEN spec, of "[asdict task_X]"]
  have "\<exists>ts. from_dicts [asdict task_X] = Inr ts \<and> length ts = length [asdict task_X]
     \<and> init prints (Content (JArr [asdict task_X]))
         = Inr (\<lparr>tasks = ts, disk = Content (JArr [asdict task_X]), writes = 0\<rparr>, None)"
    using 8 by simp
  with f have 9: "init prints (Content (JArr [asdict task_X]))
       = Inr (\<lparr>tasks = [untyped task_X], disk = Content (JArr [asdict task_X]), writes = 0\<rparr>, None)"
    by simp
  from init_spec [of "Content (JObj [])" prints,
      THEN conjunct2, THEN conjunct2, THEN conjunct2, THEN conjunct2, THEN conjunct2,
      THEN conjunct2, THEN conjunct1]
  have 10: "init prints (Content (JObj [])) = Inr (empty_on (Content (JObj [])), None)"
    by simp
  show ?thesis
    by (intro conjI) (fact 1 2 3 4 5 6 7 8 9 10)+
qed

text \<open>
  Claim C7 as stated has every malformed document reported and replaced by the empty
  collection. The loader checks no more than the presence of the seven fields: a record
  whose id is a string and whose title is a number is loaded as a task, nothing is
  reported and the collection is not empty; an empty object in the place of the array is
  read as no task at all, and nothing is reported either.
\<close>

theorem init_unvalidated_counterexample:
  "init prints (Content ill_typed_document)
     = Inr (\<lparr>tasks = [ill_typed_task], disk = Content ill_typed_document, writes = 0\<rparr>, None)
   \<and> typed ill_typed_task = None
   \<and> init prints (Content (JObj [])) = Inr (empty_on (Content (JObj [])), None)"
proof -
  have "from_dicts [JObj [(''id'', JStr ''x''), (''title'', JInt 5), (''description'', JNull),
                 (''status'', JStr ''later''), (''priority'', JInt 9),
                 (''created_at'', JStr ''''), (''updated_at'', JBool True)]] = Inr [ill_typed_task]"
    by (simp add: from_dict_def subscript_def exn_bind_def ill_typed_task_def)
  from init_reads [where console = prints, OF this]
  have 1: "init prints (Content ill_typed_document)
     = Inr (\<lparr>tasks = [ill_typed_task], disk = Content ill_typed_document, writes = 0\<rparr>, None)"
    by (simp add: ill_typed_document_def)
  have 2: "typed ill_typed_task = None"
    by (simp add: typed_def ill_typed_task_def as_int_def as_str_def)
  have 3: "init prints (Content (JObj [])) = Inr (empty_on (Content (JObj [])), None)"
    by (simp add: init_def load_def path_exists_def exn_bind_def try_except_def read_json_def
        iterate_def empty_on_def)
  from 1 2 3 show ?thesis by blast
qed

text \<open>
  Two exceptions are not caught by \<^verbatim>\<open>_load\<close>: the one that
  \<^verbatim>\<open>path.exists()\<close> raises before the \<^verbatim>\<open>try\<close>, and the one the
  report raises inside the \<^verbatim>\<open>except\<close> clause. Both leave
  \<^verbatim>\<open>__init__\<close>.
\<close>

lemma init_raises:
  "init console No_access = Inl OSError"
  "init markup_fails Not_json = Inl MarkupError"
  by (simp_all add: init_def load_def path_exists_def exn_bind_def try_except_def read_json_def
      markup_fails_def)

subsection \<open>Snapshots\<close>

text \<open>
  Claim C8, as amended. For a repository whose collection is \<open>ts\<close>,
  \<^verbatim>\<open>all()\<close> returns a new list object, different from
  \<^verbatim>\<open>self.tasks\<close>, that holds the same task objects in the same (insertion)
  order; the call leaves the collection as it was, and whatever elements a caller then
  puts into the returned list, the repository's collection stays \<open>ts\<close>.
\<close>

theorem all_tasks_spec:
  assumes c: "collection w = Some ts"
  shows "\<exists>r w'. all_tasks w = Some (r, w')
      \<and> lookup (heap w) r = None \<and> r \<noteq> self_tasks w
      \<and> self_tasks w' = self_tasks w
      \<and> list_at (heap w') r = list_at (heap w) (self_tasks w)
      \<and> contents (heap w') r = Some ts
      \<and> collection w' = Some ts
      \<and> (\<forall>rs. \<exists>w''. list_assign w' r rs = Some w'' \<and> collection w'' = Some ts)"
proof -
  let ?h = "heap w" and ?s = "self_tasks w"
  from c obtain rs where rs: "list_at ?h ?s = Some rs" and ts: "those_tasks ?h rs = Some ts"
    by (auto simp: collection_def contents_def split: option.splits)
  from rs have s_lt: "?s < length ?h"
    by (auto simp: list_at_def lookup_def split: if_splits)
  have valid: "a < length ?h" if "a \<in> set rs" for a
    using those_tasks_valid [OF ts that] .
  let ?r = "length ?h"
  let ?h' = "?h @ [List_obj rs]"
  let ?w' = "w\<lparr>heap := ?h'\<rparr>"
  have run: "all_tasks w = Some (?r, ?w')"
    using rs by (simp add: all_tasks_def)
  have fresh: "lookup ?h ?r = None" by (simp add: lookup_def)
  have ne: "?r \<noteq> ?s" using s_lt by simp
  have at_r: "list_at ?h' ?r = Some rs" by (simp add: list_at_def lookup_def)
  have at_s: "list_at ?h' ?s = Some rs"
    using rs s_lt by (simp add: list_at_def lookup_append)
  have same: "those_tasks ?h' rs = Some ts"
  proof -
    have "those_tasks ?h' rs = those_tasks ?h rs"
      by (rule those_tasks_cong) (simp add: task_at_def lookup_append valid)
    with ts show ?thesis by simp
  qed
  have cont: "contents ?h' ?r = Some ts" using at_r same by (simp add: contents_def)
  have coll: "collection ?w' = Some ts" using at_s same by (simp add: collection_def contents_def)
  have assign: "\<exists>w''. list_assign ?w' ?r rs' = Some w'' \<and> collection w'' = Some ts" for rs'
  proof -
    let ?h'' = "?h'[?r := List_obj rs']"
    have la: "list_assign ?w' ?r rs' = Some (?w'\<lparr>heap := ?h''\<rparr>)"
      using at_r by (simp add: list_assign_def)
    have lk: "lookup ?h'' a = lookup ?h' a" if "a \<noteq> ?r" for a
      using that by (rule lookup_update)
    from ne have "lookup ?h'' ?s = lookup ?h' ?s" by (intro lk) simp
    then have "list_at ?h'' ?s = list_at ?h' ?s" by (simp only: list_at_def)
    with at_s have "list_at ?h'' ?s = Some rs" by simp
    moreover have "those_tasks ?h'' rs = those_tasks ?h' rs"
    proof (rule those_tasks_cong)
      fix a assume "a \<in> set rs"
      from valid [OF this] have "a \<noteq> ?r" by simp
      then have "lookup ?h'' a = lookup ?h' a" by (rule lk)
      then show "task_at ?h'' a = task_at ?h' a" by (simp only: task_at_def)
    qed
    ultimately have "collection (?w'\<lparr>heap := ?h''\<rparr>) = Some ts"
      using same by (simp add: collection_def contents_def)
    with la show ?thesis by blast
  qed
  from run fresh ne rs at_r cont coll assign show ?thesis
    by (intro exI [of _ ?r] exI [of _ ?w']) simp
qed

theorem all_tasks_spec_witness:
  "collection w0 = Some [task_X]
   \<and> all_tasks w0 = Some (2, w1)
   \<and> lookup (heap w0) 2 = None
   \<and> list_at (heap w1) 2 = list_at (heap w0) (self_tasks w0)
   \<and> contents (heap w1) 2 = Some [task_X]
   \<and> collection w1 = Some [task_X]
   \<and> list_assign w1 2 [] = Some (w1\<lparr>heap := [Task_obj task_X, List_obj [0], List_obj []]\<rparr>)
   \<and> collection (w1\<lparr>heap := [Task_obj task_X, List_obj [0], List_obj []]\<rparr>) = Some [task_X]"
proof -
  have c: "collection w0 = Some [task_X]"
    by (simp add: w0_def collection_def contents_def list_at_def task_at_def lookup_def)
  have run: "all_tasks w0 = Some (2, w1)"
    by (simp add: w0_def w1_def all_tasks_def list_at_def lookup_def)
  from all_tasks_spec [OF c] run
  have f: "lookup (heap w0) 2 = None"
    and l: "list_at (heap w1) 2 = list_at (heap w0) (self_tasks w0)"
    and k: "contents (heap w1) 2 = Some [task_X]"
    and c1: "collection w1 = Some [task_X]"
    and a: "\<forall>rs. \<exists>w''. list_assign w1 2 rs = Some w'' \<and> collection w'' = Some [task_X]"
    by auto
  have la: "list_assign w1 2 [] = Some (w1\<lparr>heap := [Task_obj task_X, List_obj [0], List_obj []]\<rparr>)"
    by (simp add: w1_def list_assign_def list_at_def lookup_def)
  with a have c2: "collection (w1\<lparr>heap := [Task_obj task_X, List_obj [0], List_obj []]\<rparr>) = Some [task_X]"
    by (metis option.inject)
  from c run f l k c1 la c2 show ?thesis by blast
qed

text \<open>
  Claim C8 as stated also rules out every change of the store through the returned
  sequence. The copy is shallow: the returned list holds the repository's own
  \<^verbatim>\<open>Task\<close> objects, so assigning to an attribute of its first element
  changes the status of the task in the repository's collection.
\<close>

theorem all_tasks_shares_tasks_counterexample:
  "collection w0 = Some [task_X]
   \<and> all_tasks w0 = Some (2, w1)
   \<and> set_status w1 2 0 ''done''
       = Some (w1\<lparr>heap := [Task_obj (task_X\<lparr>status := ''done''\<rparr>), List_obj [0], List_obj [0]]\<rparr>)
   \<and> collection (w1\<lparr>heap := [Task_obj (task_X\<lparr>status := ''done''\<rparr>), List_obj [0], List_obj [0]]\<rparr>)
       = Some [task_X\<lparr>status := ''done''\<rparr>]
   \<and> task_X\<lparr>status := ''done''\<rparr> \<noteq> task_X"
  by (simp add: w0_def w1_def collection_def contents_def list_at_def task_at_def lookup_def
      all_tasks_def set_status_def task_X_def)

subsection \<open>The entry point of the argument-parsing demo\<close>

text \<open>
  Claim C10, as amended. \<^verbatim>\<open>main\<close> returns 0 when the handler of the
  subcommand returns, 1 when the handler raises an exception other than
  \<^verbatim>\<open>SystemExit\<close>, and, when the handler raises \<^verbatim>\<open>SystemExit\<close>
  with an integer code or with no code, that code (0 for none). A command line without a
  subcommand, like any other command line the parser refuses, does not reach the code of
  \<^verbatim>\<open>main\<close> that returns 1: the subparsers are required, so
  \<^verbatim>\<open>parse_args\<close> exits with status 2.
\<close>

theorem main_exit_codes:
  "(h \<lparr>verbose = v, output_path = out\<rparr> = Returns () \<longrightarrow> main (Subcommand v out h) = Returns 0)
   \<and> (\<forall>e. h \<lparr>verbose = v, output_path = out\<rparr> = Raises (Exception e) \<longrightarrow>
         main (Subcommand v out h) = Returns 1)
   \<and> (h \<lparr>verbose = v, output_path = out\<rparr> = Raises (SystemExit No_code) \<longrightarrow>
         main (Subcommand v out h) = Returns 0)
   \<and> (\<forall>n. h \<lparr>verbose = v, output_path = out\<rparr> = Raises (SystemExit (Int_code n)) \<longrightarrow>
         main (Subcommand v out h) = Returns n)
   \<and> main (No_subcommand v out) = Raises (SystemExit (Int_code 2))
   \<and> main Refused = Raises (SystemExit (Int_code 2))"
  by (simp add: main_def parse_args_def get_config_def int_code_or_0_def
      subparsers_required_def)

theorem main_exit_codes_witness:
  "handle_greet {} greet_alex \<lparr>verbose = False, output_path = None\<rparr> = Returns ()
   \<and> main (Subcommand False None (handle_greet {} greet_alex)) = Returns 0
   \<and> handle_greet {''/out.txt''} greet_alex \<lparr>verbose = True, output_path = Some ''/out.txt''\<rparr>
       = Raises (Exception OSError)
   \<and> main (Subcommand True (Some ''/out.txt'') (handle_greet {''/out.txt''} greet_alex)) = Returns 1
   \<and> main (Subcommand False None (exit_with No_code)) = Returns 0
   \<and> main (Subcommand False None (exit_with (Int_code 3))) = Returns 3
   \<and> main (No_subcommand False None) = Raises (SystemExit (Int_code 2))"
proof -
  have a: "handle_greet {} greet_alex \<lparr>verbose = False, output_path = None\<rparr> = Returns ()"
    by (simp add: handle_greet_def greet_alex_def write_output_def)
  have b: "handle_greet {''/out.txt''} greet_alex \<lparr>verbose = True, output_path = Some ''/out.txt''\<rparr>
       = Raises (Exception OSError)"
    by (simp add: handle_greet_def greet_alex_def write_output_def)
  have c: "exit_with No_code \<lparr>verbose = False, output_path = None\<rparr> = Raises (SystemExit No_code)"
    by (simp add: exit_with_def)
  have d: "exit_with (Int_code 3) \<lparr>verbose = False, output_path = None\<rparr>
       = Raises (SystemExit (Int_code 3))"
    by (simp add: exit_with_def)
  from main_exit_codes [of "handle_greet {} greet_alex" False None] a
  have 1: "main (Subcommand False None (handle_greet {} greet_alex)) = Returns 0" by blast
  from main_exit_codes [of "handle_greet {''/out.txt''} greet_alex" True "Some ''/out.txt''"] b
  have 2: "main (Subcommand True (Some ''/out.txt'') (handle_greet {''/out.txt''} greet_alex)) = Returns 1"
    by blast
  from main_exit_codes [of "exit_with No_code" False None] c
  have 3: "main (Subcommand False None (exit_with No_code)) = Returns 0" by blast
  from main_exit_codes [of "exit_with (Int_code 3)" False None] d
  have 4: "main (Subcommand False None (exit_with (Int_code 3))) = Returns 3" by blast
  from main_exit_codes [of "exit_with No_code" False None]
  have 5: "main (No_subcommand False None) = Raises (SystemExit (Int_code 2))" by blast
  from a 1 b 2 3 4 5 show ?thesis by blast
qed

text \<open>
  Claim C10 as stated gives exit code 1 for a missing subcommand. With
  \<^verbatim>\<open>required=True\<close> the check \<^verbatim>\<open>if not hasattr(args, "func")\<close>
  is never reached: \<^verbatim>\<open>main\<close> does not return 1, the
  \<^verbatim>\<open>SystemExit\<close> of the parser leaves it with code 2.
\<close>

theorem main_missing_subcommand_counterexample:
  "main (No_subcommand False None) = Raises (SystemExit (Int_code 2))
   \<and> main (No_subcommand False None) \<noteq> Returns 1"
  by (simp add: main_def parse_args_def subparsers_required_def)

text \<open>
  The handlers of this program raise \<^verbatim>\<open>SystemExit\<close> with a message, not
  with an integer: for \<^verbatim>\<open>greet --times 0\<close> the conversion
  \<^verbatim>\<open>int(e.code or 0)\<close> raises \<^verbatim>\<open>ValueError\<close> inside the
  \<^verbatim>\<open>except\<close> clause, and \<^verbatim>\<open>main\<close> returns no exit code.
\<close>

lemma main_greet_zero_times:
  "handle_greet {} greet_zero \<lparr>verbose = False, output_path = None\<rparr>
     = Raises (SystemExit (Msg_code Repeats_below_one))"
  "main (Subcommand False None (handle_greet {} greet_zero)) = Raises (Exception ValueError)"
  by (simp_all add: main_def parse_args_def get_config_def int_code_or_0_def
      handle_greet_def greet_zero_def)

end
